theory Spec2Isabelle
  imports Main "HOL-Library.AList" "HOL-Library.Sublist" "HOL-Library.Multiset"
    "HOL-Library.Product_Lexorder" "HOL-Library.List_Lexorder"
begin

section \<open>Values and documents\<close>

text \<open>
  The handlers of \<^verbatim>\<open>main.py\<close> move Python dictionaries between the HTTP layer and a MongoDB
  collection. A dictionary is an association list in insertion order; its values are the
  Python values that the documents of this program hold: \<^verbatim>\<open>None\<close>, strings, integers,
  \<^verbatim>\<open>ObjectId\<close>s and (naive) \<^verbatim>\<open>datetime\<close>s. Strings are byte strings, and letter case is
  the case of ASCII letters.
\<close>

datatype ObjectId = ObjectId (hex: string)

datatype datetime = Datetime nat nat nat nat nat nat nat

datatype pyval = PNone | PStr string | PInt int | POid ObjectId | PDate datetime

type_synonym doc = "(string \<times> pyval) list"

definition lower :: "char \<Rightarrow> char" where
  "lower c =
     (case map_of (zip ''ABCDEFGHIJKLMNOPQRSTUVWXYZ'' ''abcdefghijklmnopqrstuvwxyz'') c of
        Some l \<Rightarrow> l
      | None \<Rightarrow> c)"

definition is_hex :: "char \<Rightarrow> bool" where
  "is_hex c = (c \<in> set ''0123456789abcdefABCDEF'')"

definition is_space :: "char \<Rightarrow> bool" where
  "is_space c = (c \<in> set [CHR 0x20, CHR 0x09, CHR 0x0A, CHR 0x0B, CHR 0x0C, CHR 0x0D])"

text \<open>
  \<^verbatim>\<open>bytes.fromhex\<close>: two hexadecimal digits per byte, ASCII whitespace before a byte being
  skipped; anything else raises \<^verbatim>\<open>ValueError\<close>. The bytes are kept as their lower-case
  hexadecimal rendering.
\<close>

fun fromhex :: "string \<Rightarrow> string option" where
  "fromhex [] = Some []"
| "fromhex [c] = (if is_space c then Some [] else None)"
| "fromhex (c # c' # cs) =
     (if is_space c then fromhex (c' # cs)
      else if is_hex c \<and> is_hex c' then
        (case fromhex cs of None \<Rightarrow> None | Some r \<Rightarrow> Some (lower c # lower c' # r))
      else None)"

text \<open>
  \<^verbatim>\<open>ObjectId(s)\<close> of a string: the driver requires 24 characters and converts them with
  \<^verbatim>\<open>bytes.fromhex\<close>; it raises \<^verbatim>\<open>InvalidId\<close> otherwise. A well-formed identifier is 24
  hexadecimal digits, which denote 12 bytes; \<^verbatim>\<open>str\<close> of an identifier is the lower-case
  rendering of its bytes.
\<close>

definition parse_ObjectId :: "string \<Rightarrow> ObjectId option" where
  "parse_ObjectId s =
     (if length s = 24 then (case fromhex s of None \<Rightarrow> None | Some h \<Rightarrow> Some (ObjectId h))
      else None)"

definition well_formed_id :: "string \<Rightarrow> bool" where
  "well_formed_id s = (length s = 24 \<and> list_all is_hex s)"

fun show_nat :: "nat \<Rightarrow> string" where
  "show_nat n =
     (if n < 10 then [''0123456789'' ! n]
      else show_nat (n div 10) @ [''0123456789'' ! (n mod 10)])"

declare show_nat.simps [simp del]

definition show_int :: "int \<Rightarrow> string" where
  "show_int i = (if i < 0 then CHR ''-'' # show_nat (nat (- i)) else show_nat (nat i))"

definition zfill :: "nat \<Rightarrow> string \<Rightarrow> string" where
  "zfill w s = replicate (w - length s) CHR ''0'' @ s"

fun isoformat :: "datetime \<Rightarrow> string" where
  "isoformat (Datetime y mo d h mi s us) =
     zfill 4 (show_nat y) @ ''-'' @ zfill 2 (show_nat mo) @ ''-'' @ zfill 2 (show_nat d)
     @ '' '' @ zfill 2 (show_nat h) @ '':'' @ zfill 2 (show_nat mi) @ '':''
     @ zfill 2 (show_nat s) @ (if us = 0 then [] else ''.'' @ zfill 6 (show_nat us))"

text \<open>Python's \<^verbatim>\<open>str\<close> on a value.\<close>

fun py_str :: "pyval \<Rightarrow> string" where
  "py_str PNone = ''None''"
| "py_str (PStr s) = s"
| "py_str (PInt i) = show_int i"
| "py_str (POid oid) = hex oid"
| "py_str (PDate t) = isoformat t"

section \<open>Serialization\<close>

text \<open>
  \<^verbatim>\<open>serialize_doc\<close> receives a dictionary or \<^verbatim>\<open>None\<close>. A falsy argument (\<^verbatim>\<open>None\<close> or the
  empty dictionary) is returned as it is. Otherwise the copy loses its \<^verbatim>\<open>_id\<close> entry and
  gets \<^verbatim>\<open>id\<close> assigned: an assignment to an existing key keeps the key's position and
  replaces its value, an assignment to a new key appends.
\<close>

definition serialize_doc :: "doc option \<Rightarrow> doc option" where
  "serialize_doc doc =
     (case doc of
        None \<Rightarrow> None
      | Some d \<Rightarrow>
          if d = [] then Some d
          else (case map_of d ''_id'' of
                  None \<Rightarrow> Some d
                | Some v \<Rightarrow> Some (AList.update ''id'' (PStr (py_str v)) (AList.delete ''_id'' d))))"

section \<open>HTTP errors and the database module\<close>

text \<open>
  A handler either returns a value (status 200) or raises
  \<^verbatim>\<open>HTTPException(status_code, detail)\<close>. The detail is a string; where the source writes
  \<^verbatim>\<open>detail=str(e)\<close> for an error of the store, the text is the server's and is kept
  symbolic (\<open>StoreMessage\<close>). A request body that fails validation never reaches the
  handler: the framework answers it with status 422 and the list of errors.
\<close>

datatype store_error =
    TypeMismatch | IncOverflow | InvalidRegex | DuplicateKey | IntTooLarge | NotConfigured

datatype detail = Detail string | StoreMessage store_error

datatype validation_error = ModelType | Missing string | StringType string

datatype http_exception =
    HTTPException nat detail
  | RequestValidationError "validation_error list"

text \<open>
  Every handler runs \<^verbatim>\<open>from database import db\<close>. The import raises \<^verbatim>\<open>ImportError\<close> (no such
  module), raises another exception, or yields \<^verbatim>\<open>db\<close>, which is \<^verbatim>\<open>None\<close> when the store is
  not initialised and a database handle otherwise; both exceptions carry their \<^verbatim>\<open>str\<close>.
  Of the handle the program uses the attribute \<^verbatim>\<open>name\<close> (absent when \<^verbatim>\<open>hasattr\<close> is false),
  \<^verbatim>\<open>list_collection_names()\<close>, which returns the names or raises an exception with the
  given \<^verbatim>\<open>str\<close>, and the collections \<^verbatim>\<open>db[...]\<close>, lists of documents in natural order.
\<close>

type_synonym collection = "doc list"

record Database =
  name :: "string option"
  list_collection_names :: "string + string list"
  collection :: "string \<Rightarrow> collection"

datatype db_module = ImportError string | Raises string | Imported "Database option"

section \<open>Store operations\<close>

text \<open>
  The operations of the driver that the handlers call, on a collection given as the list
  of its documents. An operation fails only where the server rejects the request itself;
  failures of the connection, and the encoding of a handler's result as JSON by the
  framework, are not modelled.
\<close>

text \<open>\<^verbatim>\<open>find_one({"_id": oid})\<close>: the first document whose \<^verbatim>\<open>_id\<close> is that identifier.\<close>

definition find_one :: "collection \<Rightarrow> ObjectId \<Rightarrow> doc option" where
  "find_one coll oid = List.find (\<lambda>d. map_of d ''_id'' = Some (POid oid)) coll"

definition int64_max :: int where
  "int64_max = 9223372036854775807"

text \<open>
  The update \<^verbatim>\<open>{"$inc": {f: a}}\<close> on one document: an absent field is created with the
  amount, an integer is increased within the 64-bit range of the store, and any other
  value (\<^verbatim>\<open>null\<close> included) is rejected by the server.
\<close>

definition inc_field :: "string \<Rightarrow> int \<Rightarrow> doc \<Rightarrow> store_error + doc" where
  "inc_field f a d =
     (case map_of d f of
        None \<Rightarrow> Inr (AList.update f (PInt a) d)
      | Some (PInt n) \<Rightarrow>
          if n + a > int64_max \<or> n + a < - int64_max - 1 then Inl IncOverflow
          else Inr (AList.update f (PInt (n + a)) d)
      | Some _ \<Rightarrow> Inl TypeMismatch)"

text \<open>
  \<^verbatim>\<open>update_one({"_id": oid}, {"$inc": {f: a}})\<close>: the first matching document is updated;
  the result is \<^verbatim>\<open>matched_count\<close> and the collection afterwards.
\<close>

fun update_one_inc ::
  "collection \<Rightarrow> ObjectId \<Rightarrow> string \<Rightarrow> int \<Rightarrow> store_error + nat \<times> collection" where
  "update_one_inc [] oid f a = Inr (0, [])"
| "update_one_inc (d # ds) oid f a =
     (if map_of d ''_id'' = Some (POid oid) then
        (case inc_field f a d of Inl e \<Rightarrow> Inl e | Inr d' \<Rightarrow> Inr (1, d' # ds))
      else
        (case update_one_inc ds oid f a of
           Inl e \<Rightarrow> Inl e
         | Inr (matched_count, ds') \<Rightarrow> Inr (matched_count, d # ds')))"

text \<open>
  Regular expressions with option \<^verbatim>\<open>i\<close>. The server's engine is modelled on two classes
  of patterns: a pattern that starts with a quantifier does not compile, and a pattern of
  plain characters (ASCII other than NUL, no metacharacter) is searched for literally,
  letter case ignored. What the engine does with any other pattern is the parameter \<open>rest\<close>.
\<close>

definition meta_chars :: string where
  "meta_chars = CHR 0x5C # ''^$.[]|()?*+{}''"

definition plain_char :: "char \<Rightarrow> bool" where
  "plain_char c = (c \<notin> set meta_chars \<and> c \<noteq> CHR 0x00 \<and> (of_char c :: nat) < 128)"

fun match_here :: "string \<Rightarrow> string \<Rightarrow> bool" where
  "match_here [] s = True"
| "match_here (p # ps) [] = False"
| "match_here (p # ps) (c # cs) = (lower p = lower c \<and> match_here ps cs)"

fun search :: "string \<Rightarrow> string \<Rightarrow> bool" where
  "search p [] = match_here p []"
| "search p (c # cs) = (match_here p (c # cs) \<or> search p cs)"

type_synonym regex_engine = "string \<Rightarrow> store_error + (string \<Rightarrow> bool)"

definition regex_i :: "regex_engine \<Rightarrow> regex_engine" where
  "regex_i rest p =
     (if p \<noteq> [] \<and> hd p \<in> set ''*+?'' then Inl InvalidRegex
      else if list_all plain_char p then Inr (search p)
      else rest p)"

text \<open>
  The filters the program builds: a dictionary whose entries are \<^verbatim>\<open>"$or": [...]\<close> over
  single-field criteria and \<^verbatim>\<open>field: value\<close>; a criterion is
  \<^verbatim>\<open>{"$regex": p, "$options": "i"}\<close> or equality with a value. All entries must hold.
  A regular expression matches string values only. The server compiles every pattern
  before it looks at a document, so an invalid pattern fails the query on any collection.
\<close>

datatype criterion = RegexI string | Equal pyval

datatype clause = Or "(string \<times> criterion) list" | Field string criterion

type_synonym filter_query = "clause list"

fun compile_criterion :: "regex_engine \<Rightarrow> criterion \<Rightarrow> store_error + (pyval option \<Rightarrow> bool)" where
  "compile_criterion rest (RegexI p) =
     (case regex_i rest p of
        Inl e \<Rightarrow> Inl e
      | Inr f \<Rightarrow> Inr (\<lambda>v. case v of Some (PStr s) \<Rightarrow> f s | _ \<Rightarrow> False))"
| "compile_criterion rest (Equal w) = Inr (\<lambda>v. v = Some w)"

fun compile_fields ::
  "regex_engine \<Rightarrow> (string \<times> criterion) list \<Rightarrow> store_error + (doc \<Rightarrow> bool) list" where
  "compile_fields rest [] = Inr []"
| "compile_fields rest ((k, c) # kcs) =
     (case compile_criterion rest c of
        Inl e \<Rightarrow> Inl e
      | Inr f \<Rightarrow>
          (case compile_fields rest kcs of
             Inl e \<Rightarrow> Inl e
           | Inr fs \<Rightarrow> Inr ((\<lambda>d. f (map_of d k)) # fs)))"

fun compile_clause :: "regex_engine \<Rightarrow> clause \<Rightarrow> store_error + (doc \<Rightarrow> bool)" where
  "compile_clause rest (Or kcs) =
     (case compile_fields rest kcs of
        Inl e \<Rightarrow> Inl e
      | Inr fs \<Rightarrow> Inr (\<lambda>d. list_ex (\<lambda>f. f d) fs))"
| "compile_clause rest (Field k c) =
     (case compile_criterion rest c of
        Inl e \<Rightarrow> Inl e
      | Inr f \<Rightarrow> Inr (\<lambda>d. f (map_of d k)))"

fun compile_query :: "regex_engine \<Rightarrow> filter_query \<Rightarrow> store_error + (doc \<Rightarrow> bool)" where
  "compile_query rest [] = Inr (\<lambda>d. True)"
| "compile_query rest (c # cs) =
     (case compile_clause rest c of
        Inl e \<Rightarrow> Inl e
      | Inr f \<Rightarrow>
          (case compile_query rest cs of
             Inl e \<Rightarrow> Inl e
           | Inr g \<Rightarrow> Inr (\<lambda>d. f d \<and> g d)))"

definition find_query :: "regex_engine \<Rightarrow> collection \<Rightarrow> filter_query \<Rightarrow> store_error + doc list" where
  "find_query rest coll fq =
     (case compile_query rest fq of Inl e \<Rightarrow> Inl e | Inr P \<Rightarrow> Inr (filter P coll))"

text \<open>
  \<^verbatim>\<open>.sort(field, -1)\<close>. The server compares values of different types by type first
  (null and missing, then numbers, strings, identifiers, dates) and by value within a
  type. It does not specify the order of documents with equal keys: that order is the
  parameter \<open>natural\<close>, the sequence in which the server meets the documents it found (a
  rearrangement of them, of its own choice), which the sort keeps among equal keys.
\<close>

type_synonym natural_order = "doc list \<Rightarrow> doc list"

fun bson_order :: "pyval option \<Rightarrow> nat \<times> int list" where
  "bson_order None = (2, [])"
| "bson_order (Some PNone) = (2, [])"
| "bson_order (Some (PInt n)) = (3, [n])"
| "bson_order (Some (PStr s)) = (4, map of_char s)"
| "bson_order (Some (POid oid)) = (8, map of_char (hex oid))"
| "bson_order (Some (PDate (Datetime y mo d h mi s us))) =
     (10, [int y, int mo, int d, int h, int mi, int s, int us])"

definition sort_desc :: "natural_order \<Rightarrow> string \<Rightarrow> doc list \<Rightarrow> doc list" where
  "sort_desc natural field docs =
     rev (sort_key (\<lambda>d. bson_order (map_of d field)) (rev (natural docs)))"

text \<open>
  \<^verbatim>\<open>.limit(n)\<close>: the driver sends \<open>|n|\<close>; zero means no limit, and a number beyond 64 bits
  cannot be encoded.
\<close>

definition limit_cursor :: "int \<Rightarrow> doc list \<Rightarrow> store_error + doc list" where
  "limit_cursor n docs =
     (if n = 0 then Inr docs
      else if \<bar>n\<bar> > int64_max then Inl IntTooLarge
      else Inr (take (nat \<bar>n\<bar>) docs))"

section \<open>The handlers\<close>

subsection \<open>\<^verbatim>\<open>GET /test\<close>\<close>








subsection \<open>\<^verbatim>\<open>GET /api/resources\<close>\<close>

text \<open>
  The query parameters \<^verbatim>\<open>q\<close>, \<^verbatim>\<open>subject\<close> and \<^verbatim>\<open>type\<close> are optional strings, used when
  truthy; \<^verbatim>\<open>limit\<close> is an integer that defaults to 24. The cursor is consumed inside the
  \<^verbatim>\<open>try\<close>, so an error of the store becomes the 500 of the last handler.
\<close>

definition list_resources ::
  "regex_engine \<Rightarrow> natural_order \<Rightarrow> db_module \<Rightarrow> string option \<Rightarrow> string option \<Rightarrow> string option \<Rightarrow> int option
   \<Rightarrow> http_exception + doc option list" where
  "list_resources rest natural m q subject type limit =
     (case m of
        ImportError msg \<Rightarrow> Inl (HTTPException 500 (Detail msg))
      | Raises msg \<Rightarrow> Inl (HTTPException 500 (Detail msg))
      | Imported None \<Rightarrow> Inl (HTTPException 500 (Detail ''Database not configured''))
      | Imported (Some db) \<Rightarrow>
          (let filter_query =
                 (case q of
                    Some p \<Rightarrow>
                      if p \<noteq> [] then
                        [Or [(''title'', RegexI p), (''description'', RegexI p),
                             (''subject'', RegexI p), (''exam'', RegexI p), (''year'', RegexI p)]]
                      else []
                  | None \<Rightarrow> [])
                 @ (case subject of
                      Some s \<Rightarrow> if s \<noteq> [] then [Field ''subject'' (Equal (PStr s))] else []
                    | None \<Rightarrow> [])
                 @ (case type of
                      Some t \<Rightarrow> if t \<noteq> [] then [Field ''type'' (Equal (PStr t))] else []
                    | None \<Rightarrow> [])
           in case find_query rest (collection db ''studyasset'') filter_query of
                Inl e \<Rightarrow> Inl (HTTPException 500 (StoreMessage e))
              | Inr docs \<Rightarrow>
                  (case limit_cursor (case limit of None \<Rightarrow> 24 | Some n \<Rightarrow> n)
                          (sort_desc natural ''created_at'' docs) of
                     Inl e \<Rightarrow> Inl (HTTPException 500 (StoreMessage e))
                   | Inr cursor \<Rightarrow> Inr (map (\<lambda>doc. serialize_doc (Some doc)) cursor))))"

subsection \<open>\<^verbatim>\<open>POST /api/resources\<close>\<close>

text \<open>
  The request body is a JSON value. The framework validates it against the model
  \<^verbatim>\<open>CreateResource\<close> before the handler runs: the body must be an object, \<^verbatim>\<open>title\<close> and
  \<^verbatim>\<open>file_url\<close> must be strings, every other field a string, \<^verbatim>\<open>null\<close> or absent; keys that
  name no field are ignored. All errors are collected, and the request is then answered
  with status 422. In \<^verbatim>\<open>main.py\<close> the field \<^verbatim>\<open>class_\<close> has no alias, so its key is
  \<^verbatim>\<open>class_\<close>, on input and in \<^verbatim>\<open>model_dump(by_alias=True)\<close> (the record field is written
  \<open>class_'\<close>).
\<close>

datatype json =
    JNull | JBool bool | JNum int | JStr string | JArr "json list" | JObj "(string \<times> json) list"

definition str_field :: "(string \<times> json) list \<Rightarrow> string \<Rightarrow> validation_error + string" where
  "str_field body k =
     (case map_of body k of
        None \<Rightarrow> Inl (Missing k)
      | Some (JStr s) \<Rightarrow> Inr s
      | Some _ \<Rightarrow> Inl (StringType k))"

definition opt_str_field ::
  "(string \<times> json) list \<Rightarrow> string \<Rightarrow> validation_error + string option" where
  "opt_str_field body k =
     (case map_of body k of
        None \<Rightarrow> Inr None
      | Some JNull \<Rightarrow> Inr None
      | Some (JStr s) \<Rightarrow> Inr (Some s)
      | Some _ \<Rightarrow> Inl (StringType k))"

definition errors_of :: "'e + 'a \<Rightarrow> 'e list" where
  "errors_of r = (case r of Inl e \<Rightarrow> [e] | Inr _ \<Rightarrow> [])"

definition value_or :: "'a \<Rightarrow> 'e + 'a \<Rightarrow> 'a" where
  "value_or dflt r = (case r of Inl _ \<Rightarrow> dflt | Inr v \<Rightarrow> v)"

record CreateResource =
  title :: string
  description :: "string option"
  subject :: "string option"
  class_' :: "string option"
  exam :: "string option"
  year :: "string option"
  file_url :: string
  thumbnail_url :: "string option"
  type :: "string option"
  uploader_id :: "string option"

definition validate_CreateResource :: "json \<Rightarrow> validation_error list + CreateResource" where
  "validate_CreateResource j =
     (case j of
        JObj body \<Rightarrow>
          (let errs = errors_of (str_field body ''title'')
                 @ errors_of (opt_str_field body ''description'')
                 @ errors_of (opt_str_field body ''subject'')
                 @ errors_of (opt_str_field body ''class_'')
                 @ errors_of (opt_str_field body ''exam'')
                 @ errors_of (opt_str_field body ''year'')
                 @ errors_of (str_field body ''file_url'')
                 @ errors_of (opt_str_field body ''thumbnail_url'')
                 @ errors_of (opt_str_field body ''type'')
                 @ errors_of (opt_str_field body ''uploader_id'')
           in if errs \<noteq> [] then Inl errs
              else Inr \<lparr>title = value_or [] (str_field body ''title''),
                        description = value_or None (opt_str_field body ''description''),
                        subject = value_or None (opt_str_field body ''subject''),
                        class_' = value_or None (opt_str_field body ''class_''),
                        exam = value_or None (opt_str_field body ''exam''),
                        year = value_or None (opt_str_field body ''year''),
                        file_url = value_or [] (str_field body ''file_url''),
                        thumbnail_url = value_or None (opt_str_field body ''thumbnail_url''),
                        type = value_or None (opt_str_field body ''type''),
                        uploader_id = value_or None (opt_str_field body ''uploader_id'')\<rparr>)
      | _ \<Rightarrow> Inl [ModelType])"

definition opt_str :: "string option \<Rightarrow> pyval" where
  "opt_str s = (case s of None \<Rightarrow> PNone | Some x \<Rightarrow> PStr x)"

definition model_dump :: "CreateResource \<Rightarrow> doc" where
  "model_dump p =
     [(''title'', PStr (title p)), (''description'', opt_str (description p)),
      (''subject'', opt_str (subject p)), (''class_'', opt_str (class_' p)),
      (''exam'', opt_str (exam p)), (''year'', opt_str (year p)),
      (''file_url'', PStr (file_url p)), (''thumbnail_url'', opt_str (thumbnail_url p)),
      (''type'', opt_str (type p)), (''uploader_id'', opt_str (uploader_id p))]"

text \<open>
  \<^verbatim>\<open>create_document\<close> is imported from the \<^verbatim>\<open>database\<close> module, whose file is not among
  the sources; the handler takes it as a parameter. It receives the collection name and
  the dictionary and returns the new identifier as a string, or raises.
\<close>

type_synonym create_document_fn =
  "db_module \<Rightarrow> string \<Rightarrow> doc \<Rightarrow> (store_error + string) \<times> db_module"

definition create_resource ::
  "create_document_fn \<Rightarrow> db_module \<Rightarrow> CreateResource \<Rightarrow> (http_exception + doc) \<times> db_module" where
  "create_resource create_document m payload =
     (case m of
        ImportError msg \<Rightarrow> (Inl (HTTPException 500 (Detail msg)), m)
      | Raises msg \<Rightarrow> (Inl (HTTPException 500 (Detail msg)), m)
      | Imported _ \<Rightarrow>
          (case create_document m ''studyasset'' (model_dump payload) of
             (Inl e, m') \<Rightarrow> (Inl (HTTPException 500 (StoreMessage e)), m')
           | (Inr rid, m') \<Rightarrow> (Inr [(''id'', PStr rid)], m')))"

definition post_resources ::
  "create_document_fn \<Rightarrow> db_module \<Rightarrow> json \<Rightarrow> (http_exception + doc) \<times> db_module" where
  "post_resources create_document m body =
     (case validate_CreateResource body of
        Inl errs \<Rightarrow> (Inl (RequestValidationError errs), m)
      | Inr payload \<Rightarrow> create_resource create_document m payload)"

text \<open>
  Modelled from the spec: \<^verbatim>\<open>create_document\<close> of the \<^verbatim>\<open>database\<close> module, which is not
  under \<^verbatim>\<open>src/\<close>. The spec's adapter contract: \<^emph>\<open>insert(collection, document) -> id: stores a
  new document, assigns an identifier, returns it\<close>, identifiers being unique, and
  \<^emph>\<open>created_at: timestamp, set at creation time if absent\<close>; a store that is not configured
  fails the request. The identifier the store generates and the current time are
  parameters; an identifier already in use is refused.
\<close>

definition create_document :: "ObjectId \<Rightarrow> datetime \<Rightarrow> create_document_fn" where
  "create_document new_id now m collection_name data =
     (case m of
        Imported (Some db) \<Rightarrow>
          (let coll = collection db collection_name in
           if find_one coll new_id \<noteq> None then (Inl DuplicateKey, m)
           else
             (let stamped =
                    (if map_of data ''created_at'' = None
                     then data @ [(''created_at'', PDate now)] else data);
                  stored = (''_id'', POid new_id) # stamped
              in (Inr (hex new_id),
                  Imported (Some (db\<lparr>collection :=
                    (collection db)(collection_name := coll @ [stored])\<rparr>)))))
      | _ \<Rightarrow> (Inl NotConfigured, m))"

subsection \<open>\<^verbatim>\<open>GET /api/resources/{resource_id}\<close>\<close>

text \<open>Python's \<^verbatim>\<open>not doc\<close> on the result of \<^verbatim>\<open>find_one\<close>.\<close>

definition not_doc :: "doc option \<Rightarrow> bool" where
  "not_doc doc = (doc = None \<or> doc = Some [])"

definition get_resource :: "db_module \<Rightarrow> string \<Rightarrow> http_exception + doc option" where
  "get_resource m resource_id =
     (case m of
        ImportError msg \<Rightarrow> Inl (HTTPException 500 (Detail msg))
      | Raises msg \<Rightarrow> Inl (HTTPException 500 (Detail msg))
      | Imported None \<Rightarrow> Inl (HTTPException 500 (Detail ''Database not configured''))
      | Imported (Some db) \<Rightarrow>
          (case parse_ObjectId resource_id of
             None \<Rightarrow> Inl (HTTPException 400 (Detail ''Invalid id''))
           | Some oid \<Rightarrow>
               let doc = find_one (collection db ''studyasset'') oid in
               if not_doc doc then Inl (HTTPException 404 (Detail ''Resource not found''))
               else Inr (serialize_doc doc)))"

subsection \<open>\<^verbatim>\<open>POST /api/resources/{resource_id}/like\<close>\<close>

text \<open>The handler returns its response and leaves the module with the store as updated.\<close>

definition like_resource ::
  "db_module \<Rightarrow> string \<Rightarrow> (http_exception + doc option) \<times> db_module" where
  "like_resource m resource_id =
     (case m of
        ImportError msg \<Rightarrow> (Inl (HTTPException 500 (Detail msg)), m)
      | Raises msg \<Rightarrow> (Inl (HTTPException 500 (Detail msg)), m)
      | Imported None \<Rightarrow> (Inl (HTTPException 500 (Detail ''Database not configured'')), m)
      | Imported (Some db) \<Rightarrow>
          (case parse_ObjectId resource_id of
             None \<Rightarrow> (Inl (HTTPException 400 (Detail ''Invalid id'')), m)
           | Some oid \<Rightarrow>
               (case update_one_inc (collection db ''studyasset'') oid ''likes'' 1 of
                  Inl e \<Rightarrow> (Inl (HTTPException 500 (StoreMessage e)), m)
                | Inr (matched_count, coll) \<Rightarrow>
                    let m' = Imported (Some (db\<lparr>collection :=
                               (collection db)(''studyasset'' := coll)\<rparr>)) in
                    if matched_count = 0
                    then (Inl (HTTPException 404 (Detail ''Resource not found'')), m')
                    else (Inr (serialize_doc (find_one coll oid)), m'))))"

section \<open>Notions used to state the properties\<close>

text \<open>\<open>N\<close> calls of the like endpoint in sequence: the responses and the module afterwards.\<close>

fun like_n ::
  "nat \<Rightarrow> db_module \<Rightarrow> string \<Rightarrow> (http_exception + doc option) list \<times> db_module" where
  "like_n 0 m resource_id = ([], m)"
| "like_n (Suc k) m resource_id =
     (case like_resource m resource_id of
        (r, m') \<Rightarrow> (case like_n k m' resource_id of (rs, m'') \<Rightarrow> (r # rs, m'')))"

text \<open>
  The count a document shows (an absent field counts as 0), whether its \<^verbatim>\<open>likes\<close> is
  absent or an integer, and the document with the count set.
\<close>

definition likes_of :: "doc \<Rightarrow> int" where
  "likes_of d = (case map_of d ''likes'' of Some (PInt n) \<Rightarrow> n | _ \<Rightarrow> 0)"

definition likes_ok :: "doc \<Rightarrow> bool" where
  "likes_ok d =
     (case map_of d ''likes'' of None \<Rightarrow> True | Some (PInt n) \<Rightarrow> True | Some _ \<Rightarrow> False)"

definition with_likes :: "doc \<Rightarrow> int \<Rightarrow> doc" where
  "with_likes d n = AList.update ''likes'' (PInt n) d"





text \<open>The sort key of a returned item.\<close>

definition created_key :: "doc option \<Rightarrow> nat \<times> int list" where
  "created_key item =
     (case item of None \<Rightarrow> bson_order None | Some d \<Rightarrow> bson_order (map_of d ''created_at''))"

text \<open>Data for the examples.\<close>

definition example_oid :: string where
  "example_oid = ''0123456789abcdef01234567''"

definition example_db :: "doc list \<Rightarrow> Database" where
  "example_db docs =
     \<lparr>name = Some ''test'', list_collection_names = Inr [''studyasset''],
      collection = (\<lambda>n. if n = ''studyasset'' then docs else [])\<rparr>"


definition insertion_order :: natural_order where
  "insertion_order docs = docs"

definition no_engine :: regex_engine where
  "no_engine p = Inl InvalidRegex"

section \<open>Properties of identifiers\<close>

lemma fromhex_digits:
  "list_all is_hex s \<Longrightarrow> even (length s) \<Longrightarrow> fromhex s = Some (map lower s)"
proof (induction s rule: fromhex.induct)
  case 1
  show ?case by simp
next
  case (2 c)
  then show ?case by simp
next
  case (3 c c' cs)
  have "\<not> is_space c"
    using "3.prems"(1) by (auto simp: is_hex_def is_space_def)
  with 3 show ?case by simp
qed

lemma parse_well_formed:
  "well_formed_id s \<Longrightarrow> parse_ObjectId s = Some (ObjectId (map lower s))"
  by (simp add: well_formed_id_def parse_ObjectId_def fromhex_digits)

lemma well_formed_example: "well_formed_id example_oid"
  by (simp add: well_formed_id_def example_oid_def is_hex_def)

lemma lower_example: "map lower example_oid = example_oid"
  by (simp add: example_oid_def lower_def)

lemma parse_example_oid: "parse_ObjectId example_oid = Some (ObjectId example_oid)"
  using parse_well_formed [OF well_formed_example] by (simp add: lower_example)

lemma parse_malformed: "parse_ObjectId ''not-an-id'' = None"
  by (simp add: parse_ObjectId_def)

text \<open>
  The constructor is more lenient than the format: 24 characters of byte pairs separated
  by whitespace are accepted and give fewer than 12 bytes.
\<close>

lemma parse_tolerates_whitespace:
  "parse_ObjectId ''01 23 45 67 89 ab cd ef '' = Some (ObjectId ''0123456789abcdef'')"
  by (simp add: parse_ObjectId_def is_space_def is_hex_def lower_def)

section \<open>Properties of serialization\<close>

lemma serialize_doc_no_id:
  "map_of d ''_id'' = None \<Longrightarrow> serialize_doc (Some d) = Some d"
  by (simp add: serialize_doc_def)

lemma serialize_doc_with_id:
  "map_of d ''_id'' = Some v \<Longrightarrow>
   serialize_doc (Some d) = Some (AList.update ''id'' (PStr (py_str v)) (AList.delete ''_id'' d))"
  by (auto simp: serialize_doc_def)

lemma map_of_serialized_internal:
  "map_of (AList.update ''id'' w (AList.delete ''_id'' d)) ''_id'' = None"
  by (simp add: update_conv' delete_conv')

text \<open>
  C9, as the claim states it, fails on a stored document that has an \<^verbatim>\<open>id\<close> entry beside
  its \<^verbatim>\<open>_id\<close>: the entry \<^verbatim>\<open>id\<close> is another field of the document, and in what the
  endpoint returns its value is replaced by the rendering of \<^verbatim>\<open>_id\<close>.
\<close>

theorem serialize_doc_overwrites_public_id:
  "get_resource
     (Imported (Some (example_db [[(''_id'', POid (ObjectId example_oid)), (''id'', PStr ''x''),
                                   (''title'', PStr ''t'')]])))
     example_oid
   = Inr (serialize_doc (Some [(''_id'', POid (ObjectId example_oid)), (''id'', PStr ''x''),
                               (''title'', PStr ''t'')]))
   \<and> serialize_doc (Some [(''_id'', POid (ObjectId example_oid)), (''id'', PStr ''x''),
                          (''title'', PStr ''t'')])
     = Some [(''id'', PStr example_oid), (''title'', PStr ''t'')]"
  by (simp add: get_resource_def parse_example_oid example_db_def find_one_def not_doc_def
      serialize_doc_def)

text \<open>
  C9 (amended): serialization of a document removes \<^verbatim>\<open>_id\<close> and binds \<^verbatim>\<open>id\<close> to the
  string rendering of the removed value, replacing an \<^verbatim>\<open>id\<close> entry the document may have
  had; every field other than \<^verbatim>\<open>_id\<close> and \<^verbatim>\<open>id\<close> keeps its key and value, and a document
  without \<^verbatim>\<open>_id\<close> is returned unchanged, its \<^verbatim>\<open>id\<close> included.
\<close>

theorem serialize_doc_frame:
  "\<exists>d'. serialize_doc (Some d) = Some d'
     \<and> (\<forall>k. k \<noteq> ''_id'' \<longrightarrow> k \<noteq> ''id'' \<longrightarrow> map_of d' k = map_of d k)
     \<and> (case map_of d ''_id'' of
          None \<Rightarrow> d' = d
        | Some v \<Rightarrow> map_of d' ''_id'' = None \<and> map_of d' ''id'' = Some (PStr (py_str v)))"
proof (cases "map_of d ''_id''")
  case None
  then show ?thesis by (simp add: serialize_doc_no_id)
next
  case (Some v)
  let ?d' = "AList.update ''id'' (PStr (py_str v)) (AList.delete ''_id'' d)"
  have "serialize_doc (Some d) = Some ?d'"
    using Some by (rule serialize_doc_with_id)
  moreover have "\<forall>k. k \<noteq> ''_id'' \<longrightarrow> k \<noteq> ''id'' \<longrightarrow> map_of ?d' k = map_of d k"
    by (simp add: update_conv' delete_conv')
  moreover have "map_of ?d' ''_id'' = None"
    by (rule map_of_serialized_internal)
  moreover have "map_of ?d' ''id'' = Some (PStr (py_str v))"
    by (simp add: update_conv')
  ultimately show ?thesis using Some by simp
qed

theorem serialize_doc_frame_witness:
  "\<exists>d'. serialize_doc (Some [(''_id'', POid (ObjectId ''aa'')), (''title'', PStr ''t'')]) = Some d'
     \<and> map_of d' ''title'' = Some (PStr ''t'')
     \<and> map_of d' ''_id'' = None \<and> map_of d' ''id'' = Some (PStr ''aa'')"
proof -
  let ?d = "[(''_id'', POid (ObjectId ''aa'')), (''title'', PStr ''t'')]"
  obtain d' where s: "serialize_doc (Some ?d) = Some d'"
    and f: "\<forall>k. k \<noteq> ''_id'' \<longrightarrow> k \<noteq> ''id'' \<longrightarrow> map_of d' k = map_of ?d k"
    and i: "case map_of ?d ''_id'' of None \<Rightarrow> d' = ?d
          | Some v \<Rightarrow> map_of d' ''_id'' = None \<and> map_of d' ''id'' = Some (PStr (py_str v))"
    using serialize_doc_frame [of ?d] by blast
  have "map_of d' ''title'' = Some (PStr ''t'')"
    using f [rule_format, of "''title''"] by simp
  moreover have "map_of d' ''_id'' = None \<and> map_of d' ''id'' = Some (PStr ''aa'')"
    using i by simp
  ultimately show ?thesis using s by blast
qed

text \<open>
  C10: serializing twice is serializing once; a document without an \<^verbatim>\<open>_id\<close> key, the
  empty document and the absent document (\<^verbatim>\<open>None\<close>) are returned unchanged.
\<close>

theorem serialize_doc_idempotent:
  "serialize_doc (serialize_doc doc) = serialize_doc doc
   \<and> (\<forall>d. map_of d ''_id'' = None \<longrightarrow> serialize_doc (Some d) = Some d)
   \<and> serialize_doc (Some []) = Some []
   \<and> serialize_doc None = None"
proof -
  have idem: "serialize_doc (serialize_doc doc) = serialize_doc doc"
  proof (cases doc)
    case None
    then show ?thesis by (simp add: serialize_doc_def)
  next
    case (Some d)
    show ?thesis
    proof (cases "map_of d ''_id''")
      case None
      then show ?thesis using Some by (simp add: serialize_doc_no_id)
    next
      case (Some v)
      then show ?thesis using \<open>doc = Some d\<close>
        by (simp add: serialize_doc_with_id serialize_doc_no_id map_of_serialized_internal)
    qed
  qed
  have "serialize_doc (Some []) = Some []" and "serialize_doc None = None"
    by (simp_all add: serialize_doc_def)
  with idem show ?thesis by (simp add: serialize_doc_no_id)
qed

theorem serialize_doc_idempotent_witness:
  "serialize_doc (serialize_doc (Some [(''_id'', PStr ''a''), (''likes'', PInt 2)]))
     = serialize_doc (Some [(''_id'', PStr ''a''), (''likes'', PInt 2)])
   \<and> map_of [(''likes'', PInt 2)] ''_id'' = None
   \<and> serialize_doc (Some [(''likes'', PInt 2)]) = Some [(''likes'', PInt 2)]"
  using serialize_doc_idempotent [of "Some [(''_id'', PStr ''a''), (''likes'', PInt 2)]"]
  by simp

section \<open>Properties of the single-resource endpoints\<close>

lemma find_one_SomeD:
  "find_one coll oid = Some d \<Longrightarrow> map_of d ''_id'' = Some (POid oid) \<and> d \<in> set coll"
  unfolding find_one_def by (auto simp: find_Some_iff)

lemma update_one_inc_no_match:
  "find_one coll oid = None \<Longrightarrow> update_one_inc coll oid f a = Inr (0, coll)"
  unfolding find_one_def by (induction coll) (auto split: if_splits)

lemma update_one_inc_error:
  "find_one coll oid = Some d \<Longrightarrow> inc_field f a d = Inl e \<Longrightarrow>
   update_one_inc coll oid f a = Inl e"
  unfolding find_one_def by (induction coll) (auto split: if_splits)

lemma update_one_inc_match:
  "find_one coll oid = Some d \<Longrightarrow> inc_field f a d = Inr d' \<Longrightarrow>
   map_of d' ''_id'' = map_of d ''_id'' \<Longrightarrow>
   \<exists>coll'. update_one_inc coll oid f a = Inr (1, coll') \<and> find_one coll' oid = Some d'"
  unfolding find_one_def by (induction coll) (auto split: if_splits)

lemma inc_field_likes:
  "likes_ok d \<Longrightarrow> - int64_max - 1 \<le> likes_of d + 1 \<Longrightarrow> likes_of d + 1 \<le> int64_max \<Longrightarrow>
   inc_field ''likes'' 1 d = Inr (with_likes d (likes_of d + 1))"
  by (auto simp: inc_field_def likes_ok_def likes_of_def with_likes_def
           split: option.splits pyval.splits)

lemma with_likes_id: "map_of (with_likes d n) ''_id'' = map_of d ''_id''"
  by (simp add: with_likes_def update_conv')

lemma with_likes_other: "k \<noteq> ''likes'' \<Longrightarrow> map_of (with_likes d n) k = map_of d k"
  by (simp add: with_likes_def update_conv')

lemma likes_of_with_likes: "likes_of (with_likes d n) = n"
  by (simp add: with_likes_def likes_of_def update_conv')

lemma likes_ok_with_likes: "likes_ok (with_likes d n)"
  by (simp add: with_likes_def likes_ok_def update_conv')

lemma with_likes_twice: "with_likes (with_likes d a) b = with_likes d b"
  by (simp add: with_likes_def)

lemma serialized_likes:
  "\<exists>r. serialize_doc (Some (with_likes d n)) = Some r \<and> map_of r ''likes'' = Some (PInt n)"
proof (cases "map_of (with_likes d n) ''_id''")
  case None
  then show ?thesis
    by (simp add: serialize_doc_no_id with_likes_def update_conv')
next
  case (Some v)
  then show ?thesis
    by (simp add: serialize_doc_with_id with_likes_def update_conv' delete_conv')
qed

lemma like_resource_step:
  assumes "parse_ObjectId rid = Some oid"
    and "find_one (collection db ''studyasset'') oid = Some d"
    and "likes_ok d"
    and "- int64_max - 1 \<le> likes_of d + 1" and "likes_of d + 1 \<le> int64_max"
  shows "\<exists>db'. like_resource (Imported (Some db)) rid
            = (Inr (serialize_doc (Some (with_likes d (likes_of d + 1)))), Imported (Some db'))
          \<and> find_one (collection db' ''studyasset'') oid = Some (with_likes d (likes_of d + 1))"
proof -
  let ?d' = "with_likes d (likes_of d + 1)"
  have "inc_field ''likes'' 1 d = Inr ?d'"
    using assms(3-5) by (rule inc_field_likes)
  then obtain coll' where
    u: "update_one_inc (collection db ''studyasset'') oid ''likes'' 1 = Inr (1, coll')"
    and f: "find_one coll' oid = Some ?d'"
    using update_one_inc_match [OF assms(2), of "''likes''" 1 ?d'] with_likes_id by blast
  let ?db' = "db\<lparr>collection := (collection db)(''studyasset'' := coll')\<rparr>"
  have "like_resource (Imported (Some db)) rid
          = (Inr (serialize_doc (Some ?d')), Imported (Some ?db'))"
    using assms(1) u f by (simp add: like_resource_def)
  moreover have "find_one (collection ?db' ''studyasset'') oid = Some ?d'"
    using f by simp
  ultimately show ?thesis by blast
qed

lemma like_n_run:
  assumes p: "parse_ObjectId rid = Some oid"
  shows "find_one (collection db ''studyasset'') oid = Some d \<Longrightarrow> likes_ok d \<Longrightarrow>
     - int64_max - 1 \<le> likes_of d \<Longrightarrow> likes_of d + int N \<le> int64_max \<Longrightarrow>
     \<exists>db' dN. like_n N (Imported (Some db)) rid
         = (map (\<lambda>i. Inr (serialize_doc (Some (with_likes d (likes_of d + 1 + int i))))) [0..<N],
            Imported (Some db'))
       \<and> find_one (collection db' ''studyasset'') oid = Some dN
       \<and> likes_of dN = likes_of d + int N
       \<and> (\<forall>k. k \<noteq> ''likes'' \<longrightarrow> map_of dN k = map_of d k)"
proof (induction N arbitrary: db d)
  case 0
  then show ?case by simp
next
  case (Suc N)
  let ?l = "likes_of d"
  let ?d1 = "with_likes d (?l + 1)"
  have b1: "- int64_max - 1 \<le> ?l + 1" and b2: "?l + 1 \<le> int64_max"
    using Suc.prems(3,4) by simp_all
  obtain db1 where s: "like_resource (Imported (Some db)) rid
        = (Inr (serialize_doc (Some ?d1)), Imported (Some db1))"
    and f1: "find_one (collection db1 ''studyasset'') oid = Some ?d1"
    using like_resource_step [OF p Suc.prems(1,2) b1 b2] by blast
  have l1: "likes_of ?d1 = ?l + 1" by (rule likes_of_with_likes)
  have "- int64_max - 1 \<le> likes_of ?d1" and "likes_of ?d1 + int N \<le> int64_max"
    using Suc.prems(3,4) l1 by simp_all
  with Suc.IH [OF f1 likes_ok_with_likes]
  obtain db' dN where
    r: "like_n N (Imported (Some db1)) rid
         = (map (\<lambda>i. Inr (serialize_doc (Some (with_likes ?d1 (likes_of ?d1 + 1 + int i))))) [0..<N],
            Imported (Some db'))"
    and f: "find_one (collection db' ''studyasset'') oid = Some dN"
    and l: "likes_of dN = likes_of ?d1 + int N"
    and o: "\<forall>k. k \<noteq> ''likes'' \<longrightarrow> map_of dN k = map_of ?d1 k"
    by blast
  have tl_eq: "map (\<lambda>i. Inr (serialize_doc (Some (with_likes ?d1 (likes_of ?d1 + 1 + int i))))) [0..<N]
      = map (\<lambda>i. Inr (serialize_doc (Some (with_likes d (?l + 1 + int (Suc i)))))) [0..<N]"
    by (simp add: likes_of_with_likes with_likes_twice algebra_simps)
  have run: "like_n (Suc N) (Imported (Some db)) rid
      = (map (\<lambda>i. Inr (serialize_doc (Some (with_likes d (?l + 1 + int i))))) [0..<Suc N],
         Imported (Some db'))"
    unfolding map_upt_Suc using s r tl_eq by simp
  have "likes_of dN = ?l + int (Suc N)" using l l1 by simp
  moreover have "\<forall>k. k \<noteq> ''likes'' \<longrightarrow> map_of dN k = map_of d k"
    using o by (simp add: with_likes_other)
  ultimately show ?case using run f by blast
qed

text \<open>
  C1, as the claim states it, fails for an existing resource whose \<^verbatim>\<open>likes\<close> is \<^verbatim>\<open>null\<close>:
  the server rejects the increment, the handler answers 500, and the document stays as
  it was.
\<close>

theorem like_resource_null_likes:
  "like_resource
     (Imported (Some (example_db [[(''_id'', POid (ObjectId example_oid)), (''likes'', PNone)]])))
     example_oid
   = (Inl (HTTPException 500 (StoreMessage TypeMismatch)),
      Imported (Some (example_db [[(''_id'', POid (ObjectId example_oid)), (''likes'', PNone)]])))"
  by (simp add: like_resource_def parse_example_oid example_db_def inc_field_def)

text \<open>
  C1 (amended): with the store configured, for an existing resource whose \<^verbatim>\<open>likes\<close> is
  absent (counted as 0) or an integer of the store's 64-bit range, \<open>N\<close> sequential calls
  of the like endpoint that stay in that range all succeed; call number \<open>i + 1\<close> returns
  the serialized document with \<^verbatim>\<open>likes\<close> equal to the initial count plus \<open>i + 1\<close>, and
  afterwards the stored document shows the initial count plus \<open>N\<close> with every other
  field unchanged. One call is the case \<open>N = 1\<close>.
\<close>

theorem like_resource_increments:
  assumes "parse_ObjectId rid = Some oid"
    and "find_one (collection db ''studyasset'') oid = Some d"
    and "likes_ok d"
    and "- int64_max - 1 \<le> likes_of d"
    and "likes_of d + int N \<le> int64_max"
  shows "\<exists>db' dN. like_n N (Imported (Some db)) rid
         = (map (\<lambda>i. Inr (serialize_doc (Some (with_likes d (likes_of d + 1 + int i))))) [0..<N],
            Imported (Some db'))
       \<and> find_one (collection db' ''studyasset'') oid = Some dN
       \<and> likes_of dN = likes_of d + int N
       \<and> (\<forall>k. k \<noteq> ''likes'' \<longrightarrow> map_of dN k = map_of d k)
       \<and> (\<forall>i. \<exists>r. serialize_doc (Some (with_likes d (likes_of d + 1 + int i))) = Some r
                 \<and> map_of r ''likes'' = Some (PInt (likes_of d + 1 + int i)))"
proof -
  obtain db' dN where "like_n N (Imported (Some db)) rid
         = (map (\<lambda>i. Inr (serialize_doc (Some (with_likes d (likes_of d + 1 + int i))))) [0..<N],
            Imported (Some db'))"
    and "find_one (collection db' ''studyasset'') oid = Some dN"
    and "likes_of dN = likes_of d + int N"
    and "\<forall>k. k \<noteq> ''likes'' \<longrightarrow> map_of dN k = map_of d k"
    using like_n_run [OF assms] by blast
  moreover have "\<forall>i. \<exists>r. serialize_doc (Some (with_likes d (likes_of d + 1 + int i))) = Some r
                 \<and> map_of r ''likes'' = Some (PInt (likes_of d + 1 + int i))"
    using serialized_likes by blast
  ultimately show ?thesis by blast
qed

theorem like_resource_increments_witness:
  "\<exists>m. like_n 2 (Imported (Some (example_db [[(''_id'', POid (ObjectId example_oid)),
                                               (''title'', PStr ''Algebra'')]]))) example_oid
     = ([Inr (Some [(''title'', PStr ''Algebra''), (''likes'', PInt 1), (''id'', PStr example_oid)]),
         Inr (Some [(''title'', PStr ''Algebra''), (''likes'', PInt 2), (''id'', PStr example_oid)])],
        m)"
proof -
  let ?d = "[(''_id'', POid (ObjectId example_oid)), (''title'', PStr ''Algebra'')]"
  have h2: "find_one (collection (example_db [?d]) ''studyasset'') (ObjectId example_oid) = Some ?d"
    by (simp add: find_one_def example_db_def)
  have h3: "likes_ok ?d" by (simp add: likes_ok_def)
  have l: "likes_of ?d = 0" by (simp add: likes_of_def)
  have h4: "- int64_max - 1 \<le> likes_of ?d" and h5: "likes_of ?d + int 2 \<le> int64_max"
    by (simp_all add: l int64_max_def)
  obtain db' where "like_n 2 (Imported (Some (example_db [?d]))) example_oid
      = (map (\<lambda>i. Inr (serialize_doc (Some (with_likes ?d (likes_of ?d + 1 + int i))))) [0..<2],
         Imported (Some db'))"
    using like_resource_increments [OF parse_example_oid h2 h3 h4 h5] by blast
  moreover have "map (\<lambda>i. Inr (serialize_doc (Some (with_likes ?d (likes_of ?d + 1 + int i))))) [0..<2]
     = [Inr (Some [(''title'', PStr ''Algebra''), (''likes'', PInt 1), (''id'', PStr example_oid)]),
        Inr (Some [(''title'', PStr ''Algebra''), (''likes'', PInt 2), (''id'', PStr example_oid)])]"
    by (simp add: l with_likes_def serialize_doc_def upt_rec numeral_2_eq_2)
  ultimately show ?thesis by simp
qed

text \<open>
  C3, as the claim states it, fails when the store is not configured: the handlers test
  \<^verbatim>\<open>db is None\<close> before they parse the identifier, and answer 500 to a malformed one.
\<close>

theorem malformed_id_unconfigured_store:
  "parse_ObjectId ''not-an-id'' = None
   \<and> get_resource (Imported None) ''not-an-id''
       = Inl (HTTPException 500 (Detail ''Database not configured''))
   \<and> like_resource (Imported None) ''not-an-id''
       = (Inl (HTTPException 500 (Detail ''Database not configured'')), Imported None)"
  by (simp add: parse_malformed get_resource_def like_resource_def)

text \<open>
  C3 (amended): with the store configured, an identifier that \<^verbatim>\<open>ObjectId\<close> rejects is
  answered with 400 by both endpoints, and the like endpoint leaves the store unchanged. Without
  a configured store, or when the database module cannot be imported, both endpoints
  answer 500 before they look at the identifier.
\<close>

theorem malformed_id_client_error:
  assumes "parse_ObjectId rid = None"
  shows "get_resource (Imported (Some db)) rid = Inl (HTTPException 400 (Detail ''Invalid id''))
       \<and> like_resource (Imported (Some db)) rid
           = (Inl (HTTPException 400 (Detail ''Invalid id'')), Imported (Some db))
       \<and> get_resource (Imported None) rid
           = Inl (HTTPException 500 (Detail ''Database not configured''))
       \<and> like_resource (Imported None) rid
           = (Inl (HTTPException 500 (Detail ''Database not configured'')), Imported None)
       \<and> get_resource (ImportError msg) rid = Inl (HTTPException 500 (Detail msg))
       \<and> like_resource (ImportError msg) rid
           = (Inl (HTTPException 500 (Detail msg)), ImportError msg)
       \<and> get_resource (Raises msg) rid = Inl (HTTPException 500 (Detail msg))
       \<and> like_resource (Raises msg) rid = (Inl (HTTPException 500 (Detail msg)), Raises msg)"
  using assms by (simp add: get_resource_def like_resource_def)

theorem malformed_id_client_error_witness:
  "get_resource (Imported (Some (example_db []))) ''not-an-id''
     = Inl (HTTPException 400 (Detail ''Invalid id''))
   \<and> like_resource (Imported (Some (example_db []))) ''not-an-id''
     = (Inl (HTTPException 400 (Detail ''Invalid id'')), Imported (Some (example_db [])))"
  using malformed_id_client_error [OF parse_malformed, of "example_db []"] by simp

text \<open>
  C4: for a well-formed identifier (24 hexadecimal digits) that no document of the store
  has, both endpoints answer 404, and the like endpoint leaves the store as it was.
\<close>

theorem unknown_id_not_found:
  assumes "well_formed_id rid"
    and "find_one (collection db ''studyasset'') (ObjectId (map lower rid)) = None"
  shows "get_resource (Imported (Some db)) rid
           = Inl (HTTPException 404 (Detail ''Resource not found''))
       \<and> like_resource (Imported (Some db)) rid
           = (Inl (HTTPException 404 (Detail ''Resource not found'')), Imported (Some db))"
  using assms(2) parse_well_formed [OF assms(1)]
  by (simp add: get_resource_def like_resource_def not_doc_def update_one_inc_no_match)

theorem unknown_id_not_found_witness:
  "get_resource (Imported (Some (example_db [[(''_id'', PStr example_oid)]]))) example_oid
     = Inl (HTTPException 404 (Detail ''Resource not found''))
   \<and> like_resource (Imported (Some (example_db [[(''_id'', PStr example_oid)]]))) example_oid
     = (Inl (HTTPException 404 (Detail ''Resource not found'')),
        Imported (Some (example_db [[(''_id'', PStr example_oid)]])))"
proof -
  have "find_one (collection (example_db [[(''_id'', PStr example_oid)]]) ''studyasset'')
          (ObjectId (map lower example_oid)) = None"
    by (simp add: find_one_def example_db_def)
  from unknown_id_not_found [OF well_formed_example this] show ?thesis .
qed

section \<open>Properties of creation\<close>

text \<open>
  C7: the body of the failing input supplies \<^verbatim>\<open>class\<close>. Validation accepts it, but
  \<^verbatim>\<open>CreateResource\<close> reads the key \<^verbatim>\<open>class_\<close> only, so the value is dropped: the payload's
  field is \<^verbatim>\<open>None\<close>, and the dictionary handed to \<^verbatim>\<open>create_document\<close> binds \<^verbatim>\<open>class_\<close> to
  \<^verbatim>\<open>None\<close> and has no key \<^verbatim>\<open>class\<close>.
\<close>

theorem create_resource_drops_class:
  "validate_CreateResource
     (JObj [(''title'', JStr ''Algebra Notes''), (''file_url'', JStr ''http://x/y.pdf''),
            (''class'', JStr ''10'')])
   = Inr \<lparr>title = ''Algebra Notes'', description = None, subject = None, class_' = None,
          exam = None, year = None, file_url = ''http://x/y.pdf'', thumbnail_url = None,
          type = None, uploader_id = None\<rparr>
   \<and> model_dump \<lparr>title = ''Algebra Notes'', description = None, subject = None, class_' = None,
          exam = None, year = None, file_url = ''http://x/y.pdf'', thumbnail_url = None,
          type = None, uploader_id = None\<rparr>
   = [(''title'', PStr ''Algebra Notes''), (''description'', PNone), (''subject'', PNone),
      (''class_'', PNone), (''exam'', PNone), (''year'', PNone),
      (''file_url'', PStr ''http://x/y.pdf''), (''thumbnail_url'', PNone), (''type'', PNone),
      (''uploader_id'', PNone)]"
  by (simp add: validate_CreateResource_def str_field_def opt_str_field_def errors_of_def
      value_or_def model_dump_def opt_str_def)

text \<open>
  C2: creation followed by retrieval at the failing input, on an empty store. The
  dictionary that \<^verbatim>\<open>create_resource\<close> hands over is the dump of \<^verbatim>\<open>CreateResource\<close>, which
  has no field \<^verbatim>\<open>likes\<close>; the retrieved document therefore has no \<^verbatim>\<open>likes\<close> entry.
\<close>

theorem create_then_get_has_no_likes:
  "(case post_resources (create_document (ObjectId example_oid) (Datetime 2024 1 2 3 4 5 0))
          (Imported (Some (example_db [])))
          (JObj [(''title'', JStr ''Algebra Notes''), (''file_url'', JStr ''http://x/y.pdf'')]) of
      (r, m) \<Rightarrow>
        r = Inr [(''id'', PStr example_oid)]
        \<and> get_resource m example_oid
          = Inr (Some [(''title'', PStr ''Algebra Notes''), (''description'', PNone),
                       (''subject'', PNone), (''class_'', PNone), (''exam'', PNone),
                       (''year'', PNone), (''file_url'', PStr ''http://x/y.pdf''),
                       (''thumbnail_url'', PNone), (''type'', PNone), (''uploader_id'', PNone),
                       (''created_at'', PDate (Datetime 2024 1 2 3 4 5 0)),
                       (''id'', PStr example_oid)]))"
proof -
  have v: "validate_CreateResource
       (JObj [(''title'', JStr ''Algebra Notes''), (''file_url'', JStr ''http://x/y.pdf'')])
     = Inr \<lparr>title = ''Algebra Notes'', description = None, subject = None, class_' = None,
          exam = None, year = None, file_url = ''http://x/y.pdf'', thumbnail_url = None,
          type = None, uploader_id = None\<rparr>"
    by (simp add: validate_CreateResource_def str_field_def opt_str_field_def errors_of_def
        value_or_def)
  have h: "hex (ObjectId example_oid) = example_oid" by simp
  show ?thesis
    unfolding post_resources_def v
    by (simp add: create_resource_def create_document_def model_dump_def opt_str_def
        example_db_def find_one_def get_resource_def parse_example_oid not_doc_def
        serialize_doc_def)
qed

section \<open>Properties of the diagnostics endpoint\<close>



section \<open>Properties of the listing\<close>








lemma created_key_serialize:
  "created_key (serialize_doc (Some d)) = bson_order (map_of d ''created_at'')"
proof (cases "map_of d ''_id''")
  case None
  then show ?thesis by (simp add: serialize_doc_no_id created_key_def)
next
  case (Some v)
  then show ?thesis
    by (simp add: serialize_doc_with_id created_key_def update_conv' delete_conv')
qed

lemma sort_desc_sorted:
  "sorted_wrt (\<lambda>a b. bson_order (map_of b k) \<le> bson_order (map_of a k)) (sort_desc natural k docs)"
proof -
  have "sorted (map (\<lambda>d. bson_order (map_of d k))
                 (sort_key (\<lambda>d. bson_order (map_of d k)) (rev (natural docs))))"
    by (rule sorted_sort_key)
  then show ?thesis
    by (simp add: sort_desc_def sorted_map sorted_wrt_rev)
qed

lemma limit_cursor_Inr:
  assumes "limit_cursor n docs = Inr cursor"
  shows "(if n = 0 then cursor = docs else cursor = take (nat \<bar>n\<bar>) docs)"
  using assms by (simp add: limit_cursor_def split: if_splits)

lemma list_resources_Inr:
  assumes "list_resources rest natural m q subj tp limit = Inr items"
  shows "\<exists>docs cursor.
           limit_cursor (case limit of None \<Rightarrow> 24 | Some n \<Rightarrow> n) (sort_desc natural ''created_at'' docs)
             = Inr cursor
         \<and> items = map (\<lambda>doc. serialize_doc (Some doc)) cursor"
proof (cases m)
  case (ImportError msg)
  then show ?thesis using assms by (simp add: list_resources_def)
next
  case (Raises msg)
  then show ?thesis using assms by (simp add: list_resources_def)
next
  case (Imported h)
  show ?thesis
  proof (cases h)
    case None
    then show ?thesis using assms Imported by (simp add: list_resources_def)
  next
    case (Some db)
    then show ?thesis using assms Imported
      by (auto simp: list_resources_def Let_def split: sum.splits)
  qed
qed









text \<open>
  C6, as the claim states it, fails for \<^verbatim>\<open>limit=0\<close>: the value is passed to the cursor as it
  is, where 0 means no limit, so a store with one document yields one entry.
\<close>

theorem list_resources_limit_zero:
  "list_resources no_engine insertion_order
     (Imported (Some (example_db [[(''_id'', POid (ObjectId example_oid)), (''title'', PStr ''t'')]])))
     None None None (Some 0)
   = Inr [Some [(''title'', PStr ''t''), (''id'', PStr example_oid)]]"
  by (simp add: list_resources_def find_query_def example_db_def sort_desc_def insertion_order_def limit_cursor_def
      serialize_doc_def)

text \<open>
  C6 (amended): for every store state and query, the items that \<^verbatim>\<open>GET /api/resources\<close>
  returns are sorted by \<^verbatim>\<open>created_at\<close> in descending order, a missing or null value being
  the earliest; there are at most 24 of them when no limit is given, at most \<open>n\<close> for a
  limit \<open>n > 0\<close> and at most \<open>-n\<close> for a limit \<open>n < 0\<close>. The limit 0 does not bound the
  result.
\<close>

theorem list_resources_sorted_limited:
  assumes "list_resources rest natural m q subj tp limit = Inr items"
  shows "sorted_wrt (\<lambda>a b. created_key b \<le> created_key a) items
       \<and> (limit = None \<longrightarrow> length items \<le> 24)
       \<and> (\<forall>n. limit = Some n \<longrightarrow> 0 < n \<longrightarrow> length items \<le> nat n)
       \<and> (\<forall>n. limit = Some n \<longrightarrow> n < 0 \<longrightarrow> length items \<le> nat (- n))"
proof -
  let ?L = "case limit of None \<Rightarrow> 24 | Some n \<Rightarrow> n"
  obtain docs cursor where
    c: "limit_cursor ?L (sort_desc natural ''created_at'' docs) = Inr cursor"
    and i: "items = map (\<lambda>doc. serialize_doc (Some doc)) cursor"
    using list_resources_Inr [OF assms] by blast
  have cur: "if ?L = 0 then cursor = sort_desc natural ''created_at'' docs
             else cursor = take (nat \<bar>?L\<bar>) (sort_desc natural ''created_at'' docs)"
    using c by (rule limit_cursor_Inr)
  have "sorted_wrt (\<lambda>a b. bson_order (map_of b ''created_at'') \<le> bson_order (map_of a ''created_at''))
          cursor"
    using cur sort_desc_sorted [of "''created_at''" natural docs]
    by (auto split: if_splits intro: sorted_wrt_take)
  then have sorted: "sorted_wrt (\<lambda>a b. created_key b \<le> created_key a) items"
    by (simp add: i sorted_wrt_map created_key_serialize)
  have len: "?L \<noteq> 0 \<Longrightarrow> length items \<le> nat \<bar>?L\<bar>"
    using cur by (simp add: i)
  have "limit = None \<longrightarrow> length items \<le> 24"
    using len by auto
  moreover have "\<forall>n. limit = Some n \<longrightarrow> 0 < n \<longrightarrow> length items \<le> nat n"
    using len by auto
  moreover have "\<forall>n. limit = Some n \<longrightarrow> n < 0 \<longrightarrow> length items \<le> nat (- n)"
    using len by auto
  ultimately show ?thesis using sorted by blast
qed

theorem list_resources_sorted_limited_witness:
  "list_resources no_engine insertion_order
     (Imported (Some (example_db
        [[(''_id'', PInt 1), (''created_at'', PDate (Datetime 2024 1 2 3 4 5 0))],
         [(''_id'', PInt 2)],
         [(''_id'', PInt 3), (''created_at'', PDate (Datetime 2025 6 7 8 9 10 0))]])))
     None None None (Some 2)
   = Inr [Some [(''created_at'', PDate (Datetime 2025 6 7 8 9 10 0)), (''id'', PStr ''3'')],
          Some [(''created_at'', PDate (Datetime 2024 1 2 3 4 5 0)), (''id'', PStr ''1'')]]
   \<and> sorted_wrt (\<lambda>a b. created_key b \<le> created_key a)
        [Some [(''created_at'', PDate (Datetime 2025 6 7 8 9 10 0)), (''id'', PStr ''3'')],
         Some [(''created_at'', PDate (Datetime 2024 1 2 3 4 5 0)), (''id'', PStr ''1'')]]
   \<and> length [Some [(''created_at'', PDate (Datetime 2025 6 7 8 9 10 0)), (''id'', PStr ''3'')],
          Some [(''created_at'', PDate (Datetime 2024 1 2 3 4 5 0)), (''id'', PStr ''1'')]] \<le> nat 2"
proof -
  have run: "list_resources no_engine insertion_order
     (Imported (Some (example_db
        [[(''_id'', PInt 1), (''created_at'', PDate (Datetime 2024 1 2 3 4 5 0))],
         [(''_id'', PInt 2)],
         [(''_id'', PInt 3), (''created_at'', PDate (Datetime 2025 6 7 8 9 10 0))]])))
     None None None (Some 2)
   = Inr [Some [(''created_at'', PDate (Datetime 2025 6 7 8 9 10 0)), (''id'', PStr ''3'')],
          Some [(''created_at'', PDate (Datetime 2024 1 2 3 4 5 0)), (''id'', PStr ''1'')]]"
    by (simp add: list_resources_def find_query_def example_db_def sort_desc_def insertion_order_def limit_cursor_def
        serialize_doc_def int64_max_def show_int_def show_nat.simps)
  from list_resources_sorted_limited [OF run] run show ?thesis by simp
qed

end
